theory Spec2Isabelle
  imports Main "HOL-Library.Multiset"
begin

section \<open>Conversation orchestration of the Todo chatbot (\<open>src/api/chat.py\<close>)\<close>

text \<open>
  The development embeds the helper functions and endpoints of \<open>chat.py\<close> as HOL
  functions over an explicit store. The store is the pair of tables the code queries,
  each table a list of rows in insertion order. Every function takes the store and
  returns its result together with the store that is committed when it leaves its
  \<open>async with async_session_factory()\<close> block: the unit of work of a session reaches the
  store only through its single \<open>commit\<close>, and a block left by an exception commits
  nothing.

  Values that the code obtains from its environment are arguments of the model: the
  identifier and clock reading a row receives when it is constructed (a \<open>stamp\<close>), the
  clock reading of \<open>touch\<close>, and the agent collaborator \<open>run_agent\<close>.
\<close>

subsection \<open>Python strings\<close>

text \<open>
  A Python \<open>str\<close> is a sequence of code points; slicing and \<open>strip\<close> count code points.
\<close>

type_synonym pystr = "nat list"

definition ascii :: "string \<Rightarrow> pystr" where
  "ascii s = map of_char s"

text \<open>The code points that \<open>str.strip()\<close> removes (those with \<open>str.isspace()\<close> true).\<close>

definition isspace :: "nat \<Rightarrow> bool" where
  "isspace c \<longleftrightarrow>
     (9 \<le> c \<and> c \<le> 13) \<or> (28 \<le> c \<and> c \<le> 32) \<or> c = 133 \<or> c = 160 \<or> c = 5760 \<or>
     (8192 \<le> c \<and> c \<le> 8202) \<or> c = 8232 \<or> c = 8233 \<or> c = 8239 \<or> c = 8287 \<or> c = 12288"

definition strip :: "pystr \<Rightarrow> pystr" where
  "strip s = rev (dropWhile isspace (rev (dropWhile isspace s)))"

subsection \<open>Data model\<close>

type_synonym uuid = nat
type_synonym datetime = int

text \<open>
  Modelled from the spec: the classes \<open>Conversation\<close>, \<open>Message\<close> and \<open>MessageRole\<close> of
  \<open>src.models\<close> are not part of the sources at hand. The rows follow the persisted
  layout \<open>conversations(id, owner, created_at, updated_at)\<close> and
  \<open>messages(id, conversation_id, role, content, tool_calls(nullable), created_at)\<close>; the
  role is the closed enumeration user, assistant, tool-system.
\<close>

datatype MessageRole = USER | ASSISTANT | TOOL

datatype json =
    JNull
  | JBool bool
  | JNum int
  | JStr pystr
  | JArr "json list"
  | JObj "(pystr \<times> json) list"

text \<open>The dictionary \<open>{"tool_name": .., "arguments": .., "result": ..}\<close> stored with a message.\<close>

record tool_call_dict =
  d_tool_name :: pystr
  d_arguments :: json
  d_result :: json

record Conversation =
  c_id :: uuid
  c_user_id :: pystr
  c_created_at :: datetime
  c_updated_at :: datetime

record Message =
  m_id :: uuid
  m_conversation_id :: uuid
  m_role :: MessageRole
  m_content :: pystr
  m_tool_calls :: "tool_call_dict list option"
  m_created_at :: datetime

record db =
  conversations :: "Conversation list"
  messages :: "Message list"

text \<open>What \<open>uuid4()\<close> and the clock return while a row is constructed.\<close>

record stamp =
  fresh_id :: uuid
  now :: datetime

text \<open>
  Modelled from the spec: the constructor \<open>Conversation(user_id=...)\<close>; creation sets the
  owner, a fresh id and \<open>created_at = updated_at = now\<close>.
\<close>

definition new_conversation :: "stamp \<Rightarrow> pystr \<Rightarrow> Conversation" where
  "new_conversation st user_id =
     \<lparr>c_id = fresh_id st, c_user_id = user_id, c_created_at = now st, c_updated_at = now st\<rparr>"

text \<open>
  Modelled from the spec: the constructor
  \<open>Message(conversation_id=..., role=..., content=..., tool_calls=...)\<close>, which adds the
  message's own id and \<open>created_at\<close>.
\<close>

definition new_message ::
  "stamp \<Rightarrow> uuid \<Rightarrow> MessageRole \<Rightarrow> pystr \<Rightarrow> tool_call_dict list option \<Rightarrow> Message" where
  "new_message st conversation_id role content tool_calls =
     \<lparr>m_id = fresh_id st, m_conversation_id = conversation_id, m_role = role,
      m_content = content, m_tool_calls = tool_calls, m_created_at = now st\<rparr>"

text \<open>
  Modelled from the spec: the method \<open>Conversation.touch()\<close>, which advances
  \<open>updated_at\<close> to now. The clock reading is the argument \<open>t\<close>.
\<close>

definition touch :: "datetime \<Rightarrow> Conversation \<Rightarrow> Conversation" where
  "touch t conversation = conversation\<lparr>c_updated_at := t\<rparr>"

subsection \<open>Exceptions and query results\<close>

text \<open>
  The exceptions that occur in \<open>chat.py\<close>: the \<open>HTTPException\<close> the endpoints raise (status
  code and detail), the \<open>MultipleResultsFound\<close> of \<open>scalar_one_or_none()\<close>, and whatever
  else the agent collaborator raises, carrying its own detail. The collaborator is
  ordinary Python, so it may raise any of them. \<open>OtherException\<close> stands for the instances
  of \<open>Exception\<close> that are none of the first two, \<open>BaseException\<close> for the exceptions that
  are not instances of \<open>Exception\<close> (\<open>asyncio.CancelledError\<close>, \<open>KeyboardInterrupt\<close>,
  \<open>SystemExit\<close>).
\<close>

datatype exn =
    HTTPException nat pystr
  | MultipleResultsFound
  | OtherException pystr
  | BaseException pystr

text \<open>\<open>Result.scalar_one_or_none()\<close>: no row, the one row, or an exception for several.\<close>

fun scalar_one_or_none :: "'a list \<Rightarrow> exn + 'a option" where
  "scalar_one_or_none [] = Inr None"
| "scalar_one_or_none [x] = Inr (Some x)"
| "scalar_one_or_none (x # y # rows) = Inl MultipleResultsFound"

subsection \<open>Helper functions\<close>

text \<open>
  \<open>get_or_create_conversation\<close>. A \<open>UUID\<close> object is always truthy, so
  \<open>if conversation_id:\<close> tests for \<open>None\<close>. The first component of the result is the
  returned conversation or the exception that leaves the function.
\<close>

definition get_or_create_conversation ::
  "stamp \<Rightarrow> pystr \<Rightarrow> uuid option \<Rightarrow> db \<Rightarrow> (exn + Conversation) \<times> db" where
  "get_or_create_conversation st user_id conversation_id db =
     (let create =
        (let conversation = new_conversation st user_id
         in (Inr conversation, db\<lparr>conversations := conversations db @ [conversation]\<rparr>))
      in case conversation_id of
           None \<Rightarrow> create
         | Some cid \<Rightarrow>
             (case scalar_one_or_none
                     (filter (\<lambda>c. c_id c = cid \<and> c_user_id c = user_id) (conversations db)) of
                Inl e \<Rightarrow> (Inl e, db)
              | Inr (Some conversation) \<Rightarrow> (Inr conversation, db)
              | Inr None \<Rightarrow> create))"

text \<open>
  \<open>load_conversation_history\<close>. \<open>ORDER BY created_at ASC\<close> is a stable sort of the
  selected rows: rows with equal \<open>created_at\<close> keep their table order. Each message
  becomes the dictionary \<open>{"role": msg.role.value, "content": msg.content}\<close>; the
  role's string value is in one-to-one correspondence with the role, which stands for it.
\<close>

record history_entry =
  h_role :: MessageRole
  h_content :: pystr

definition load_conversation_history :: "uuid \<Rightarrow> db \<Rightarrow> history_entry list" where
  "load_conversation_history conversation_id db =
     (let msgs = sort_key m_created_at
                   (filter (\<lambda>m. m_conversation_id m = conversation_id) (messages db))
      in map (\<lambda>msg. \<lparr>h_role = m_role msg, h_content = m_content msg\<rparr>) msgs)"

text \<open>
  \<open>session.add(conversation)\<close> for a conversation loaded in the session: at commit the
  row with the object's primary key takes the object's state.
\<close>

definition merge_conversation :: "Conversation \<Rightarrow> Conversation list \<Rightarrow> Conversation list" where
  "merge_conversation conversation rows =
     map (\<lambda>c. if c_id c = c_id conversation then conversation else c) rows"

text \<open>
  \<open>save_message\<close>. The message is added to the session, the conversation is looked up by
  id alone and touched when found, and one \<open>commit\<close> writes both. When
  \<open>scalar_one_or_none()\<close> raises, the session is left without a commit. The store
  enforces no foreign key from messages to conversations (the engine of
  \<open>src/db/__init__.py\<close> is created without one being switched on).
\<close>

definition save_message ::
  "stamp \<Rightarrow> datetime \<Rightarrow> uuid \<Rightarrow> MessageRole \<Rightarrow> pystr \<Rightarrow> tool_call_dict list option \<Rightarrow> db
     \<Rightarrow> (exn + Message) \<times> db" where
  "save_message st t conversation_id role content tool_calls db =
     (let message = new_message st conversation_id role content tool_calls;
          session = db\<lparr>messages := messages db @ [message]\<rparr>
      in case scalar_one_or_none
                (filter (\<lambda>c. c_id c = conversation_id) (conversations session)) of
           Inl e \<Rightarrow> (Inl e, db)
         | Inr None \<Rightarrow> (Inr message, session)
         | Inr (Some conversation) \<Rightarrow>
             (Inr message,
              session\<lparr>conversations :=
                merge_conversation (touch t conversation) (conversations session)\<rparr>))"

subsection \<open>The chat endpoint\<close>

text \<open>
  The agent collaborator returns a response (content and tool calls) or raises. Each
  call is recorded with its arguments, so that what the agent was given can be stated.
\<close>

record ToolCall =
  tc_tool_name :: pystr
  tc_arguments :: json
  tc_result :: json

record AgentResponse =
  a_content :: pystr
  a_tool_calls :: "ToolCall list"

type_synonym agent = "pystr \<Rightarrow> pystr \<Rightarrow> history_entry list \<Rightarrow> exn + AgentResponse"

record agent_call =
  call_user_id :: pystr
  call_message :: pystr
  call_history :: "history_entry list"

record ChatRequest =
  req_message :: pystr
  req_conversation_id :: "uuid option"

record ToolCallResponse =
  r_tool_name :: pystr
  r_arguments :: json
  r_result :: json

record ChatResponse =
  resp_conversation_id :: uuid
  resp_response :: pystr
  resp_tool_calls :: "ToolCallResponse list"

text \<open>The identifiers and clock readings one turn draws from its environment.\<close>

record turn_env =
  conv_stamp :: stamp
  user_stamp :: stamp
  user_touch :: datetime
  asst_stamp :: stamp
  asst_touch :: datetime

definition empty_message_detail :: pystr where
  "empty_message_detail =
     ascii ''I didn't catch that. Could you tell me what you'd like to do with your tasks?''"

definition generic_failure_detail :: pystr where
  "generic_failure_detail =
     ascii ''I'm having trouble processing your request right now. Please try again.''"

text \<open>
  The two \<open>except\<close> clauses of \<open>chat\<close>: an \<open>HTTPException\<close> is raised again as it is, and
  any other instance of \<open>Exception\<close> becomes the status 500 with the fixed detail. An
  exception that is not an instance of \<open>Exception\<close> is caught by neither clause and
  leaves \<open>chat\<close> as it is.
\<close>

fun handle_exception :: "exn \<Rightarrow> exn" where
  "handle_exception (HTTPException status_code detail) = HTTPException status_code detail"
| "handle_exception (BaseException detail) = BaseException detail"
| "handle_exception e = HTTPException 500 generic_failure_detail"

text \<open>
  \<open>chat\<close>. The result is the response or the exception that leaves the endpoint, the
  store after the call, and the calls made to the agent.
\<close>

definition chat ::
  "turn_env \<Rightarrow> agent \<Rightarrow> ChatRequest \<Rightarrow> pystr \<Rightarrow> db
     \<Rightarrow> (exn + ChatResponse) \<times> db \<times> agent_call list" where
  "chat env run_agent request user_id db =
     (let message = strip (req_message request)
      in if message = [] then (Inl (HTTPException 400 empty_message_detail), db, [])
         else
           case get_or_create_conversation (conv_stamp env) user_id
                  (req_conversation_id request) db of
             (Inl e, db1) \<Rightarrow> (Inl (handle_exception e), db1, [])
           | (Inr conversation, db1) \<Rightarrow>
               let history = load_conversation_history (c_id conversation) db1
               in case save_message (user_stamp env) (user_touch env) (c_id conversation)
                         USER message None db1 of
                    (Inl e, db2) \<Rightarrow> (Inl (handle_exception e), db2, [])
                  | (Inr user_message, db2) \<Rightarrow>
                      let calls = [\<lparr>call_user_id = user_id, call_message = message,
                                     call_history = history\<rparr>]
                      in case run_agent user_id message history of
                           Inl e \<Rightarrow> (Inl (handle_exception e), db2, calls)
                         | Inr agent_response \<Rightarrow>
                             let tool_calls_response =
                                   map (\<lambda>tc. \<lparr>r_tool_name = tc_tool_name tc,
                                               r_arguments = tc_arguments tc,
                                               r_result = tc_result tc\<rparr>)
                                     (a_tool_calls agent_response);
                                 tool_calls_data =
                                   (if a_tool_calls agent_response \<noteq> []
                                    then Some (map (\<lambda>tc. \<lparr>d_tool_name = tc_tool_name tc,
                                                           d_arguments = tc_arguments tc,
                                                           d_result = tc_result tc\<rparr>)
                                                 (a_tool_calls agent_response))
                                    else None)
                             in case save_message (asst_stamp env) (asst_touch env)
                                       (c_id conversation) ASSISTANT
                                       (a_content agent_response) tool_calls_data db2 of
                                  (Inl e, db3) \<Rightarrow> (Inl (handle_exception e), db3, calls)
                                | (Inr assistant_message, db3) \<Rightarrow>
                                    (Inr \<lparr>resp_conversation_id = c_id conversation,
                                          resp_response = a_content agent_response,
                                          resp_tool_calls = tool_calls_response\<rparr>,
                                     db3, calls))"

subsection \<open>Conversation history endpoints\<close>

text \<open>
  The responses carry the identifiers and timestamps themselves; \<open>str\<close> and \<open>isoformat\<close>
  only render them. The path parameter \<open>conversation_id\<close> of the two endpoints below is the
  textual form of an id; its comparison with the id columns is the equality of ids.
\<close>

record ConversationResponse =
  cr_id :: uuid
  cr_created_at :: datetime
  cr_updated_at :: datetime
  cr_preview :: pystr

record MessageResponse =
  mr_id :: uuid
  mr_role :: MessageRole
  mr_content :: pystr
  mr_tool_calls :: "tool_call_dict list option"
  mr_created_at :: datetime

text \<open>The body of the loop of \<open>list_conversations\<close>: the preview query and the response.\<close>

definition conversation_response :: "Conversation \<Rightarrow> db \<Rightarrow> exn + ConversationResponse" where
  "conversation_response conv db =
     (case scalar_one_or_none
             (take 1 (sort_key m_created_at
                (filter (\<lambda>m. m_conversation_id m = c_id conv \<and> m_role m = USER)
                   (messages db)))) of
        Inl e \<Rightarrow> Inl e
      | Inr first_msg \<Rightarrow>
          Inr \<lparr>cr_id = c_id conv, cr_created_at = c_created_at conv,
               cr_updated_at = c_updated_at conv,
               cr_preview = (case first_msg of
                               Some m \<Rightarrow> take 80 (m_content m)
                             | None \<Rightarrow> ascii ''New conversation'')\<rparr>)"

text \<open>The loop \<open>for conv in conversations\<close>, with the list \<open>responses\<close> it appends to.\<close>

fun collect_responses ::
  "Conversation list \<Rightarrow> db \<Rightarrow> ConversationResponse list \<Rightarrow> exn + ConversationResponse list" where
  "collect_responses [] db responses = Inr responses"
| "collect_responses (conv # convs) db responses =
     (case conversation_response conv db of
        Inl e \<Rightarrow> Inl e
      | Inr r \<Rightarrow> collect_responses convs db (responses @ [r]))"

text \<open>\<open>ORDER BY updated_at DESC\<close>: a stable sort on the negated timestamp.\<close>

definition list_conversations :: "pystr \<Rightarrow> db \<Rightarrow> exn + ConversationResponse list" where
  "list_conversations user_id db =
     (let convs = sort_key (\<lambda>c. - c_updated_at c)
                    (filter (\<lambda>c. c_user_id c = user_id) (conversations db))
      in collect_responses convs db [])"

definition not_found :: exn where
  "not_found = HTTPException 404 (ascii ''Conversation not found.'')"

definition get_conversation_messages ::
  "uuid \<Rightarrow> pystr \<Rightarrow> db \<Rightarrow> exn + uuid \<times> MessageResponse list" where
  "get_conversation_messages conversation_id user_id db =
     (case scalar_one_or_none
             (filter (\<lambda>c. c_id c = conversation_id \<and> c_user_id c = user_id)
                (conversations db)) of
        Inl e \<Rightarrow> Inl e
      | Inr None \<Rightarrow> Inl not_found
      | Inr (Some conversation) \<Rightarrow>
          (let msgs = sort_key m_created_at
                        (filter (\<lambda>m. m_conversation_id m = conversation_id) (messages db))
           in Inr (conversation_id,
                   map (\<lambda>msg. \<lparr>mr_id = m_id msg, mr_role = m_role msg,
                                mr_content = m_content msg, mr_tool_calls = m_tool_calls msg,
                                mr_created_at = m_created_at msg\<rparr>) msgs)))"

text \<open>
  \<open>session.delete(obj)\<close>: at commit the row with the object's primary key is deleted.
\<close>

definition delete_message :: "db \<Rightarrow> Message \<Rightarrow> db" where
  "delete_message session msg =
     session\<lparr>messages := filter (\<lambda>r. m_id r \<noteq> m_id msg) (messages session)\<rparr>"

definition delete_conversation_row :: "db \<Rightarrow> Conversation \<Rightarrow> db" where
  "delete_conversation_row session conversation =
     session\<lparr>conversations :=
       filter (\<lambda>r. c_id r \<noteq> c_id conversation) (conversations session)\<rparr>"

text \<open>
  \<open>delete_conversation\<close>. All deletions belong to one session and reach the store with
  its single \<open>commit\<close>; the two \<open>raise\<close> paths leave the session without one.
\<close>

definition delete_conversation :: "uuid \<Rightarrow> pystr \<Rightarrow> db \<Rightarrow> (exn + unit) \<times> db" where
  "delete_conversation conversation_id user_id db =
     (case scalar_one_or_none
             (filter (\<lambda>c. c_id c = conversation_id \<and> c_user_id c = user_id)
                (conversations db)) of
        Inl e \<Rightarrow> (Inl e, db)
      | Inr None \<Rightarrow> (Inl not_found, db)
      | Inr (Some conversation) \<Rightarrow>
          (let msgs = filter (\<lambda>m. m_conversation_id m = conversation_id) (messages db);
               session = foldl delete_message db msgs;
               session' = delete_conversation_row session conversation
           in (Inr (), session')))"

subsection \<open>An example store\<close>

text \<open>
  Two owners, \<open>alice\<close> and \<open>bob\<close>. Conversation 1 (alice) holds three messages, stored out
  of chronological order; conversation 2 (bob) holds none; conversation 3 (alice) holds
  one assistant message only.
\<close>

definition alice :: pystr where "alice = ascii ''alice''"
definition bob :: pystr where "bob = ascii ''bob''"

definition example_db :: db where
  "example_db =
     \<lparr>conversations =
        [\<lparr>c_id = 1, c_user_id = alice, c_created_at = 10, c_updated_at = 40\<rparr>,
         \<lparr>c_id = 2, c_user_id = bob, c_created_at = 20, c_updated_at = 20\<rparr>,
         \<lparr>c_id = 3, c_user_id = alice, c_created_at = 50, c_updated_at = 60\<rparr>],
      messages =
        [\<lparr>m_id = 12, m_conversation_id = 1, m_role = ASSISTANT, m_content = ascii ''hi!'',
          m_tool_calls = None, m_created_at = 31\<rparr>,
         \<lparr>m_id = 11, m_conversation_id = 1, m_role = USER, m_content = ascii ''hello there'',
          m_tool_calls = None, m_created_at = 30\<rparr>,
         \<lparr>m_id = 13, m_conversation_id = 1, m_role = USER, m_content = ascii ''second msg'',
          m_tool_calls = None, m_created_at = 40\<rparr>,
         \<lparr>m_id = 14, m_conversation_id = 3, m_role = ASSISTANT, m_content = ascii ''ok'',
          m_tool_calls = None, m_created_at = 60\<rparr>]\<rparr>"

definition example_env :: turn_env where
  "example_env =
     \<lparr>conv_stamp = \<lparr>fresh_id = 7, now = 100\<rparr>,
      user_stamp = \<lparr>fresh_id = 21, now = 101\<rparr>, user_touch = 102,
      asst_stamp = \<lparr>fresh_id = 22, now = 103\<rparr>, asst_touch = 104\<rparr>"

text \<open>Agents: one that answers with a tool call, one that answers without, one that
  answers with the content of the last entry of the history it is given, and three
  that raise.\<close>

definition tool_agent :: agent where
  "tool_agent user_id message history =
     Inr \<lparr>a_content = ascii ''added'',
          a_tool_calls = [\<lparr>tc_tool_name = ascii ''add_task'',
                           tc_arguments = JObj [(ascii ''title'', JStr message)],
                           tc_result = JBool True\<rparr>]\<rparr>"

definition plain_agent :: agent where
  "plain_agent user_id message history = Inr \<lparr>a_content = ascii ''sure'', a_tool_calls = []\<rparr>"

definition failing_agent :: agent where
  "failing_agent user_id message history = Inl (OtherException (ascii ''model timeout''))"

definition http_failing_agent :: agent where
  "http_failing_agent user_id message history =
     Inl (HTTPException 404 (ascii ''Task 17 of alice not found''))"

definition cancelled_agent :: agent where
  "cancelled_agent user_id message history = Inl (BaseException (ascii ''CancelledError''))"

definition echo_agent :: agent where
  "echo_agent user_id message history =
     Inr \<lparr>a_content = (case rev history of
                          [] \<Rightarrow> ascii ''nothing yet''
                        | entry # _ \<Rightarrow> h_content entry),
          a_tool_calls = []\<rparr>"

section \<open>Properties\<close>

subsection \<open>Queries on tables whose primary key is unique\<close>

lemma filter_key_empty:
  "\<not> (\<exists>x \<in> set xs. P x) \<Longrightarrow> filter P xs = []"
  by (induction xs) auto

lemma filter_same_key:
  "distinct (map k xs) \<Longrightarrow> x \<in> set xs \<Longrightarrow> filter (\<lambda>y. k y = k x) xs = [x]"
proof (induction xs)
  case Nil
  then show ?case by simp
next
  case (Cons a xs)
  show ?case
  proof (cases "a = x")
    case True
    have "k x \<notin> k ` set xs" using Cons.prems(1) True by simp
    then have "\<not> (\<exists>y \<in> set xs. k y = k x)" by (metis image_eqI)
    then have "filter (\<lambda>y. k y = k x) xs = []" by (rule filter_key_empty)
    then show ?thesis using True by simp
  next
    case False
    then have xin: "x \<in> set xs" using Cons.prems(2) by simp
    have "k a \<notin> k ` set xs" using Cons.prems(1) by simp
    then have "k a \<noteq> k x" using xin by (simp add: image_iff)
    moreover have "filter (\<lambda>y. k y = k x) xs = [x]"
      using Cons.IH Cons.prems(1) xin by simp
    ultimately show ?thesis by simp
  qed
qed

lemma filter_unique_key:
  assumes "distinct (map k xs)" and "x \<in> set xs" and "\<And>y. P y \<Longrightarrow> k y = k x" and "P x"
  shows "filter P xs = [x]"
proof -
  have "filter P xs = filter P (filter (\<lambda>y. k y = k x) xs)"
    using assms(3) by (auto simp: filter_filter intro: filter_cong)
  also have "\<dots> = filter P [x]" using assms(1,2) by (simp add: filter_same_key)
  finally show ?thesis using assms(4) by simp
qed
subsection \<open>Resolve-or-create\<close>

text \<open>
  C1. For every owner \<open>B\<close> and every conversation id that does not belong to a
  conversation owned by \<open>B\<close> (an unknown id, or the id of a conversation of another
  owner), \<open>get_or_create_conversation\<close> raises nothing and returns none of the stored
  conversations of other owners: it appends one new conversation owned by \<open>B\<close>, carrying
  the fresh id, to the table and returns it; the row is new whenever the fresh id is
  not yet in use. When the id resolves to a conversation owned by \<open>B\<close> (ids being unique
  in the table), that conversation is returned and the store is unchanged.
\<close>

theorem get_or_create_conversation_isolation:
  "(\<not> (\<exists>c \<in> set (conversations db). c_id c = cid \<and> c_user_id c = B) \<longrightarrow>
      (\<exists>c. get_or_create_conversation st B (Some cid) db
              = (Inr c, db\<lparr>conversations := conversations db @ [c]\<rparr>)
           \<and> c_user_id c = B \<and> c_id c = fresh_id st
           \<and> (\<forall>a \<in> set (conversations db). c_user_id a \<noteq> B \<longrightarrow> c \<noteq> a)
           \<and> (fresh_id st \<notin> c_id ` set (conversations db) \<longrightarrow> c \<notin> set (conversations db))))
   \<and> (\<forall>c. distinct (map c_id (conversations db)) \<and> c \<in> set (conversations db)
            \<and> c_id c = cid \<and> c_user_id c = B \<longrightarrow>
          get_or_create_conversation st B (Some cid) db = (Inr c, db))"
proof (intro conjI impI allI)
  assume none: "\<not> (\<exists>c \<in> set (conversations db). c_id c = cid \<and> c_user_id c = B)"
  then have "filter (\<lambda>c. c_id c = cid \<and> c_user_id c = B) (conversations db) = []"
    by (rule filter_key_empty)
  then have "get_or_create_conversation st B (Some cid) db
      = (Inr (new_conversation st B),
         db\<lparr>conversations := conversations db @ [new_conversation st B]\<rparr>)"
    by (simp add: get_or_create_conversation_def Let_def)
  moreover have "c_user_id (new_conversation st B) = B"
    and "c_id (new_conversation st B) = fresh_id st"
    by (simp_all add: new_conversation_def)
  ultimately show "\<exists>c. get_or_create_conversation st B (Some cid) db
              = (Inr c, db\<lparr>conversations := conversations db @ [c]\<rparr>)
           \<and> c_user_id c = B \<and> c_id c = fresh_id st
           \<and> (\<forall>a \<in> set (conversations db). c_user_id a \<noteq> B \<longrightarrow> c \<noteq> a)
           \<and> (fresh_id st \<notin> c_id ` set (conversations db) \<longrightarrow> c \<notin> set (conversations db))"
  proof (intro exI [of _ "new_conversation st B"] conjI ballI impI)
    fix a
    assume "a \<in> set (conversations db)" and "c_user_id a \<noteq> B"
    then show "new_conversation st B \<noteq> a"
      by (auto simp: new_conversation_def)
  next
    assume "fresh_id st \<notin> c_id ` set (conversations db)"
    then show "new_conversation st B \<notin> set (conversations db)"
      by (metis \<open>c_id (new_conversation st B) = fresh_id st\<close> image_eqI)
  qed simp_all
next
  fix c
  assume h: "distinct (map c_id (conversations db)) \<and> c \<in> set (conversations db)
            \<and> c_id c = cid \<and> c_user_id c = B"
  have "filter (\<lambda>x. c_id x = cid \<and> c_user_id x = B) (conversations db) = [c]"
    by (rule filter_unique_key [where k = c_id]) (use h in auto)
  then show "get_or_create_conversation st B (Some cid) db = (Inr c, db)"
    by (simp add: get_or_create_conversation_def Let_def)
qed

lemma example_conversations:
  "conversations example_db =
     [\<lparr>c_id = 1, c_user_id = alice, c_created_at = 10, c_updated_at = 40\<rparr>,
      \<lparr>c_id = 2, c_user_id = bob, c_created_at = 20, c_updated_at = 20\<rparr>,
      \<lparr>c_id = 3, c_user_id = alice, c_created_at = 50, c_updated_at = 60\<rparr>]"
  by (simp add: example_db_def)

lemma alice_neq_bob: "alice \<noteq> bob" "bob \<noteq> alice"
  by (simp_all add: alice_def bob_def ascii_def)

theorem get_or_create_conversation_isolation_witness:
  "(\<exists>c. get_or_create_conversation \<lparr>fresh_id = 7, now = 100\<rparr> bob (Some 1) example_db
           = (Inr c, example_db\<lparr>conversations := conversations example_db @ [c]\<rparr>)
        \<and> c_user_id c = bob \<and> c_id c = 7 \<and> c \<notin> set (conversations example_db))
   \<and> get_or_create_conversation \<lparr>fresh_id = 7, now = 100\<rparr> alice (Some 1) example_db
        = (Inr \<lparr>c_id = 1, c_user_id = alice, c_created_at = 10, c_updated_at = 40\<rparr>, example_db)"
proof -
  have none: "\<not> (\<exists>c \<in> set (conversations example_db). c_id c = 1 \<and> c_user_id c = bob)"
    by (simp add: example_conversations alice_neq_bob)
  have fresh: "fresh_id \<lparr>fresh_id = 7, now = 100\<rparr> \<notin> c_id ` set (conversations example_db)"
    by (simp add: example_conversations)
  have own: "distinct (map c_id (conversations example_db))
      \<and> \<lparr>c_id = 1, c_user_id = alice, c_created_at = 10, c_updated_at = 40\<rparr>
           \<in> set (conversations example_db)
      \<and> c_id \<lparr>c_id = 1, c_user_id = alice, c_created_at = 10, c_updated_at = 40\<rparr> = 1
      \<and> c_user_id \<lparr>c_id = 1, c_user_id = alice, c_created_at = 10, c_updated_at = 40\<rparr> = alice"
    by (simp add: example_conversations)
  note thm1 = get_or_create_conversation_isolation
    [of example_db 1 bob "\<lparr>fresh_id = 7, now = 100\<rparr>"]
  note thm2 = get_or_create_conversation_isolation
    [of example_db 1 alice "\<lparr>fresh_id = 7, now = 100\<rparr>"]
  from thm1 none fresh have
    "\<exists>c. get_or_create_conversation \<lparr>fresh_id = 7, now = 100\<rparr> bob (Some 1) example_db
           = (Inr c, example_db\<lparr>conversations := conversations example_db @ [c]\<rparr>)
        \<and> c_user_id c = bob \<and> c_id c = 7 \<and> c \<notin> set (conversations example_db)"
    by auto
  moreover from thm2 own have
    "get_or_create_conversation \<lparr>fresh_id = 7, now = 100\<rparr> alice (Some 1) example_db
        = (Inr \<lparr>c_id = 1, c_user_id = alice, c_created_at = 10, c_updated_at = 40\<rparr>, example_db)"
    by blast
  ultimately show ?thesis by blast
qed

subsection \<open>History projection\<close>

lemma example_messages:
  "messages example_db =
     [\<lparr>m_id = 12, m_conversation_id = 1, m_role = ASSISTANT, m_content = ascii ''hi!'',
       m_tool_calls = None, m_created_at = 31\<rparr>,
      \<lparr>m_id = 11, m_conversation_id = 1, m_role = USER, m_content = ascii ''hello there'',
       m_tool_calls = None, m_created_at = 30\<rparr>,
      \<lparr>m_id = 13, m_conversation_id = 1, m_role = USER, m_content = ascii ''second msg'',
       m_tool_calls = None, m_created_at = 40\<rparr>,
      \<lparr>m_id = 14, m_conversation_id = 3, m_role = ASSISTANT, m_content = ascii ''ok'',
       m_tool_calls = None, m_created_at = 60\<rparr>]"
  by (simp add: example_db_def)

text \<open>
  C6. For every conversation id, \<open>load_conversation_history\<close> returns the role and content
  of exactly the messages of that conversation (each stored message once, nothing else),
  in ascending order of \<open>created_at\<close>; ids, timestamps and tool-call payloads are not part
  of an entry. The function has no error result, and for a conversation without
  messages the result is the empty list.
\<close>

theorem load_conversation_history_projection:
  "(\<exists>rows. load_conversation_history cid db
              = map (\<lambda>msg. \<lparr>h_role = m_role msg, h_content = m_content msg\<rparr>) rows
          \<and> sorted (map m_created_at rows)
          \<and> mset rows = mset (filter (\<lambda>m. m_conversation_id m = cid) (messages db)))
   \<and> length (load_conversation_history cid db)
        = length (filter (\<lambda>m. m_conversation_id m = cid) (messages db))
   \<and> (\<not> (\<exists>m \<in> set (messages db). m_conversation_id m = cid) \<longrightarrow>
        load_conversation_history cid db = [])"
proof (intro conjI impI)
  let ?sel = "filter (\<lambda>m. m_conversation_id m = cid) (messages db)"
  have eq: "load_conversation_history cid db
      = map (\<lambda>msg. \<lparr>h_role = m_role msg, h_content = m_content msg\<rparr>)
          (sort_key m_created_at ?sel)"
    by (simp add: load_conversation_history_def)
  show "\<exists>rows. load_conversation_history cid db
              = map (\<lambda>msg. \<lparr>h_role = m_role msg, h_content = m_content msg\<rparr>) rows
          \<and> sorted (map m_created_at rows) \<and> mset rows = mset ?sel"
    using eq by (intro exI [of _ "sort_key m_created_at ?sel"]) simp
  show "length (load_conversation_history cid db) = length ?sel"
    using eq by simp
  assume "\<not> (\<exists>m \<in> set (messages db). m_conversation_id m = cid)"
  then have "?sel = []" by (rule filter_key_empty)
  then show "load_conversation_history cid db = []"
    using eq by simp
qed

theorem load_conversation_history_projection_witness:
  "load_conversation_history 2 example_db = []
   \<and> load_conversation_history 1 example_db
       = [\<lparr>h_role = USER, h_content = ascii ''hello there''\<rparr>,
          \<lparr>h_role = ASSISTANT, h_content = ascii ''hi!''\<rparr>,
          \<lparr>h_role = USER, h_content = ascii ''second msg''\<rparr>]"
proof -
  have "\<not> (\<exists>m \<in> set (messages example_db). m_conversation_id m = 2)"
    by (simp add: example_messages)
  with load_conversation_history_projection [of 2 example_db]
  have "load_conversation_history 2 example_db = []" by blast
  moreover have "load_conversation_history 1 example_db
       = [\<lparr>h_role = USER, h_content = ascii ''hello there''\<rparr>,
          \<lparr>h_role = ASSISTANT, h_content = ascii ''hi!''\<rparr>,
          \<lparr>h_role = USER, h_content = ascii ''second msg''\<rparr>]"
    by (simp add: load_conversation_history_def example_messages)
  ultimately show ?thesis by simp
qed

subsection \<open>Saving a message\<close>

lemma save_message_absent:
  assumes "\<not> (\<exists>c \<in> set (conversations db). c_id c = cid)"
  shows "save_message st t cid role content tool_calls db
     = (Inr (new_message st cid role content tool_calls),
        db\<lparr>messages := messages db @ [new_message st cid role content tool_calls]\<rparr>)"
proof -
  have "filter (\<lambda>c. c_id c = cid) (conversations db) = []"
    using assms by (rule filter_key_empty)
  then show ?thesis by (simp add: save_message_def Let_def)
qed

lemma save_message_present:
  assumes "distinct (map c_id (conversations db))" and "c \<in> set (conversations db)"
  shows "save_message st t (c_id c) role content tool_calls db
     = (Inr (new_message st (c_id c) role content tool_calls),
        db\<lparr>messages := messages db @ [new_message st (c_id c) role content tool_calls],
           conversations := merge_conversation (touch t c) (conversations db)\<rparr>)"
proof -
  have "filter (\<lambda>x. c_id x = c_id c) (conversations db) = [c]"
    using assms by (rule filter_same_key)
  then show ?thesis by (simp add: save_message_def Let_def)
qed


text \<open>
  C10. When no conversation has the given id, \<open>save_message\<close> raises nothing: it returns
  the new message, which carries the dangling conversation id and is appended to the
  stored messages, and the table of conversations is left as it was (no timestamp is
  touched).
\<close>

theorem save_message_missing_conversation:
  "\<not> (\<exists>c \<in> set (conversations db). c_id c = cid) \<Longrightarrow>
     \<exists>m db'. save_message st t cid role content tool_calls db = (Inr m, db')
        \<and> m_conversation_id m = cid \<and> m_role m = role \<and> m_content m = content
        \<and> messages db' = messages db @ [m]
        \<and> conversations db' = conversations db"
  by (simp add: save_message_absent new_message_def)

theorem save_message_missing_conversation_witness:
  "\<exists>m db'. save_message \<lparr>fresh_id = 21, now = 101\<rparr> 102 9 USER (ascii ''buy milk'') None example_db
              = (Inr m, db')
        \<and> m_conversation_id m = 9
        \<and> messages db' = messages example_db @ [m]
        \<and> conversations db' = conversations example_db"
proof -
  have "\<not> (\<exists>c \<in> set (conversations example_db). c_id c = 9)"
    by (simp add: example_conversations)
  from save_message_missing_conversation [OF this] show ?thesis by blast
qed



subsection \<open>The chat turn\<close>

lemma strip_eq_Nil_iff: "strip s = [] \<longleftrightarrow> (\<forall>c \<in> set s. isspace c)"
proof
  assume "strip s = []"
  then have "dropWhile isspace (rev (dropWhile isspace s)) = []"
    by (simp add: strip_def)
  then have "\<forall>c \<in> set (rev (dropWhile isspace s)). isspace c"
    by (simp add: dropWhile_eq_Nil_conv)
  then have all: "\<forall>c \<in> set (dropWhile isspace s). isspace c" by simp
  show "\<forall>c \<in> set s. isspace c"
  proof (rule ccontr)
    assume "\<not> (\<forall>c \<in> set s. isspace c)"
    then have "dropWhile isspace s \<noteq> []" by (simp add: dropWhile_eq_Nil_conv)
    then have "\<not> isspace (hd (dropWhile isspace s))" by (rule hd_dropWhile)
    moreover have "hd (dropWhile isspace s) \<in> set (dropWhile isspace s)"
      using \<open>dropWhile isspace s \<noteq> []\<close> by simp
    ultimately show False using all by blast
  qed
next
  assume "\<forall>c \<in> set s. isspace c"
  then have d: "dropWhile isspace s = []" by simp
  show "strip s = []" unfolding strip_def d by simp
qed

text \<open>
  C2. For every request whose message is empty after \<open>strip\<close> (that is, consists of
  whitespace only), \<open>chat\<close> raises the \<open>HTTPException\<close> with status 400 before anything is
  persisted: the store after the call is the store before it (no conversation created
  or touched, no message written), and the agent is not called.
\<close>

theorem chat_empty_message:
  "strip (req_message request) = [] \<Longrightarrow>
     chat env run_agent request user_id db
       = (Inl (HTTPException 400 empty_message_detail), db, [])"
  by (simp add: chat_def)

theorem chat_empty_message_witness:
  "chat example_env tool_agent
     \<lparr>req_message = [32, 9, 10, 160, 8195], req_conversation_id = None\<rparr> alice example_db
       = (Inl (HTTPException 400 empty_message_detail), example_db, [])"
proof -
  have "\<forall>c \<in> set [32, 9, 10, 160, 8195]. isspace c"
    by (simp add: isspace_def)
  then have "strip (req_message \<lparr>req_message = [32, 9, 10, 160, 8195], req_conversation_id = None\<rparr>) = []"
    by (simp add: strip_eq_Nil_iff)
  from chat_empty_message [OF this] show ?thesis .
qed

lemma chat_cases:
  assumes "chat env run_agent request user_id db = (r, db', calls)"
  shows "calls = []
    \<or> (\<exists>c db1 um db2.
          strip (req_message request) \<noteq> []
        \<and> get_or_create_conversation (conv_stamp env) user_id (req_conversation_id request) db
            = (Inr c, db1)
        \<and> save_message (user_stamp env) (user_touch env) (c_id c) USER
            (strip (req_message request)) None db1 = (Inr um, db2)
        \<and> calls = [\<lparr>call_user_id = user_id, call_message = strip (req_message request),
                     call_history = load_conversation_history (c_id c) db1\<rparr>]
        \<and> ((\<exists>e. run_agent user_id (strip (req_message request))
                    (load_conversation_history (c_id c) db1) = Inl e
                 \<and> r = Inl (handle_exception e) \<and> db' = db2)
           \<or> (\<exists>a rr. run_agent user_id (strip (req_message request))
                    (load_conversation_history (c_id c) db1) = Inr a
                 \<and> save_message (asst_stamp env) (asst_touch env) (c_id c) ASSISTANT (a_content a)
                      (if a_tool_calls a \<noteq> []
                       then Some (map (\<lambda>tc. \<lparr>d_tool_name = tc_tool_name tc,
                                              d_arguments = tc_arguments tc,
                                              d_result = tc_result tc\<rparr>) (a_tool_calls a))
                       else None) db2 = (rr, db')
                 \<and> (case rr of
                       Inl e \<Rightarrow> r = Inl (handle_exception e)
                     | Inr am \<Rightarrow>
                         r = Inr \<lparr>resp_conversation_id = c_id c, resp_response = a_content a,
                                  resp_tool_calls =
                                    map (\<lambda>tc. \<lparr>r_tool_name = tc_tool_name tc,
                                                r_arguments = tc_arguments tc,
                                                r_result = tc_result tc\<rparr>) (a_tool_calls a)\<rparr>))))"
  using assms unfolding chat_def Let_def
  by (auto split: if_splits prod.splits sum.splits)

lemma filter_key_at_most_one:
  assumes "distinct (map k xs)" and "\<And>y. P y \<Longrightarrow> k y = v"
  shows "filter P xs = [] \<or> (\<exists>x. x \<in> set xs \<and> P x \<and> filter P xs = [x])"
proof (cases "\<exists>x \<in> set xs. P x")
  case True
  then obtain x where x: "x \<in> set xs" "P x" by blast
  have "filter P xs = [x]"
  proof (rule filter_unique_key [where k = k])
    show "distinct (map k xs)" by (rule assms(1))
    show "x \<in> set xs" by (rule x(1))
    show "P x" by (rule x(2))
    show "k y = k x" if "P y" for y
      using assms(2) [OF that] assms(2) [OF x(2)] by simp
  qed
  then show ?thesis using x by blast
next
  case False
  then have "filter P xs = []" by (rule filter_key_empty)
  then show ?thesis by simp
qed

lemma get_or_create_conversation_Inr:
  assumes "get_or_create_conversation st user_id conversation_id db = (Inr c, db1)"
  shows "c_user_id c = user_id" and "messages db1 = messages db"
    and "c \<in> set (conversations db1)"
    and "db1 = db \<or> (c_id c = fresh_id st \<and> conversations db1 = conversations db @ [c])"
proof -
  let ?rows = "filter (\<lambda>x. c_id x = the conversation_id \<and> c_user_id x = user_id)
                 (conversations db)"
  have "(c \<in> set ?rows \<and> db1 = db)
      \<or> (c = new_conversation st user_id
           \<and> db1 = db\<lparr>conversations := conversations db @ [c]\<rparr>)"
  proof (cases conversation_id)
    case None
    then show ?thesis
      using assms by (auto simp: get_or_create_conversation_def Let_def)
  next
    case (Some cid)
    show ?thesis
    proof (cases ?rows)
      case Nil
      then show ?thesis
        using assms Some by (auto simp: get_or_create_conversation_def Let_def)
    next
      case (Cons a rest)
      then show ?thesis
        using assms Some
        by (cases rest) (auto simp: get_or_create_conversation_def Let_def)
    qed
  qed
  then show "c_user_id c = user_id" and "messages db1 = messages db"
    and "c \<in> set (conversations db1)"
    and "db1 = db \<or> (c_id c = fresh_id st \<and> conversations db1 = conversations db @ [c])"
    by (auto simp: new_conversation_def)
qed

lemma get_or_create_conversation_total:
  assumes "distinct (map c_id (conversations db))"
  shows "\<exists>c db1. get_or_create_conversation st user_id conversation_id db = (Inr c, db1)"
proof (cases conversation_id)
  case None
  then show ?thesis by (simp add: get_or_create_conversation_def Let_def)
next
  case (Some cid)
  have "filter (\<lambda>c. c_id c = cid \<and> c_user_id c = user_id) (conversations db) = []
      \<or> (\<exists>x. x \<in> set (conversations db) \<and> (c_id x = cid \<and> c_user_id x = user_id)
             \<and> filter (\<lambda>c. c_id c = cid \<and> c_user_id c = user_id) (conversations db) = [x])"
    by (rule filter_key_at_most_one [where k = c_id and v = cid]) (use assms in auto)
  then show ?thesis
    using Some by (auto simp: get_or_create_conversation_def Let_def)
qed

lemma get_or_create_conversation_distinct:
  assumes "get_or_create_conversation st user_id conversation_id db = (Inr c, db1)"
    and "distinct (map c_id (conversations db))"
    and "fresh_id st \<notin> c_id ` set (conversations db)"
  shows "distinct (map c_id (conversations db1))"
  using get_or_create_conversation_Inr(4) [OF assms(1)] assms(2,3) by auto

lemma map_c_id_merge:
  "c_id c' = c_id c \<Longrightarrow> map c_id (merge_conversation c' rows) = map c_id rows"
  by (induction rows) (auto simp: merge_conversation_def)

lemma merge_conversation_member:
  "c \<in> set rows \<Longrightarrow> c_id c' = c_id c \<Longrightarrow> c' \<in> set (merge_conversation c' rows)"
  by (induction rows) (auto simp: merge_conversation_def)

lemma load_conversation_history_messages:
  "messages db1 = messages db \<Longrightarrow>
     load_conversation_history cid db1 = load_conversation_history cid db"
  by (simp add: load_conversation_history_def)

text \<open>Steps 2 to 4 of a turn on a store with unique conversation ids.\<close>

lemma chat_user_message_saved:
  assumes goc: "get_or_create_conversation (conv_stamp env) user_id
                  (req_conversation_id request) db = (Inr c, db1)"
    and d: "distinct (map c_id (conversations db))"
    and fresh: "fresh_id (conv_stamp env) \<notin> c_id ` set (conversations db)"
  shows "save_message (user_stamp env) (user_touch env) (c_id c) USER content None db1
     = (Inr (new_message (user_stamp env) (c_id c) USER content None),
        db1\<lparr>messages := messages db @ [new_message (user_stamp env) (c_id c) USER content None],
            conversations := merge_conversation (touch (user_touch env) c) (conversations db1)\<rparr>)"
proof -
  have d1: "distinct (map c_id (conversations db1))"
    using goc d fresh by (rule get_or_create_conversation_distinct)
  have "c \<in> set (conversations db1)" and "messages db1 = messages db"
    using get_or_create_conversation_Inr [OF goc] by simp_all
  then show ?thesis
    using save_message_present [OF d1, of c] by simp
qed

lemma chat_assistant_message_saved:
  assumes goc: "get_or_create_conversation (conv_stamp env) user_id
                  (req_conversation_id request) db = (Inr c, db1)"
    and d: "distinct (map c_id (conversations db))"
    and fresh: "fresh_id (conv_stamp env) \<notin> c_id ` set (conversations db)"
    and db2: "db2 = db1\<lparr>messages := msgs,
                 conversations := merge_conversation (touch t c) (conversations db1)\<rparr>"
  shows "save_message st t' (c_id c) role content tool_calls db2
     = (Inr (new_message st (c_id c) role content tool_calls),
        db2\<lparr>messages := msgs @ [new_message st (c_id c) role content tool_calls],
            conversations := merge_conversation (touch t' (touch t c)) (conversations db2)\<rparr>)"
proof -
  have d1: "distinct (map c_id (conversations db1))"
    using goc d fresh by (rule get_or_create_conversation_distinct)
  have cin: "c \<in> set (conversations db1)"
    using get_or_create_conversation_Inr [OF goc] by simp
  have idt: "c_id (touch t c) = c_id c" by (simp add: touch_def)
  have d2: "distinct (map c_id (conversations db2))"
    using d1 idt by (simp add: db2 map_c_id_merge)
  have in2: "touch t c \<in> set (conversations db2)"
    using cin idt by (simp add: db2 merge_conversation_member)
  show ?thesis
    using save_message_present [OF d2 in2, of st t' role content tool_calls] idt
    by (simp add: db2)
qed

text \<open>A turn in which the agent raises, on a store with unique conversation ids.\<close>

lemma chat_agent_raises:
  assumes ne: "strip (req_message request) \<noteq> []"
    and d: "distinct (map c_id (conversations db))"
    and fresh: "fresh_id (conv_stamp env) \<notin> c_id ` set (conversations db)"
    and goc: "get_or_create_conversation (conv_stamp env) user_id
                (req_conversation_id request) db = (Inr c, db1)"
    and raises: "run_agent user_id (strip (req_message request))
                   (load_conversation_history (c_id c) db1) = Inl e"
  shows "chat env run_agent request user_id db
     = (Inl (handle_exception e),
        db1\<lparr>messages := messages db @
                [new_message (user_stamp env) (c_id c) USER (strip (req_message request)) None],
            conversations := merge_conversation (touch (user_touch env) c) (conversations db1)\<rparr>,
        [\<lparr>call_user_id = user_id, call_message = strip (req_message request),
          call_history = load_conversation_history (c_id c) db1\<rparr>])"
  using ne raises
  by (simp add: chat_def Let_def goc chat_user_message_saved [OF goc d fresh])

text \<open>A turn in which the agent answers, on a store with unique conversation ids.\<close>

lemma chat_agent_answers:
  assumes ne: "strip (req_message request) \<noteq> []"
    and d: "distinct (map c_id (conversations db))"
    and fresh: "fresh_id (conv_stamp env) \<notin> c_id ` set (conversations db)"
    and goc: "get_or_create_conversation (conv_stamp env) user_id
                (req_conversation_id request) db = (Inr c, db1)"
    and answers: "run_agent user_id (strip (req_message request))
                   (load_conversation_history (c_id c) db1) = Inr a"
  shows "\<exists>db'. chat env run_agent request user_id db
     = (Inr \<lparr>resp_conversation_id = c_id c, resp_response = a_content a,
             resp_tool_calls = map (\<lambda>tc. \<lparr>r_tool_name = tc_tool_name tc,
                                           r_arguments = tc_arguments tc,
                                           r_result = tc_result tc\<rparr>) (a_tool_calls a)\<rparr>,
        db',
        [\<lparr>call_user_id = user_id, call_message = strip (req_message request),
          call_history = load_conversation_history (c_id c) db1\<rparr>])
     \<and> messages db' = messages db @
          [new_message (user_stamp env) (c_id c) USER (strip (req_message request)) None,
           new_message (asst_stamp env) (c_id c) ASSISTANT (a_content a)
             (if a_tool_calls a \<noteq> []
              then Some (map (\<lambda>tc. \<lparr>d_tool_name = tc_tool_name tc,
                                     d_arguments = tc_arguments tc,
                                     d_result = tc_result tc\<rparr>) (a_tool_calls a))
              else None)]
     \<and> conversations db'
         = merge_conversation (touch (asst_touch env) (touch (user_touch env) c))
             (merge_conversation (touch (user_touch env) c) (conversations db1))"
proof -
  let ?um = "new_message (user_stamp env) (c_id c) USER (strip (req_message request)) None"
  note user = chat_user_message_saved [OF goc d fresh, of "strip (req_message request)"]
  note asst = chat_assistant_message_saved [OF goc d fresh refl]
  show ?thesis
    using ne answers
    by (simp add: chat_def Let_def goc user asst)
qed

lemma example_resolves_alice:
  "get_or_create_conversation (conv_stamp example_env) alice (Some 1) example_db
     = (Inr \<lparr>c_id = 1, c_user_id = alice, c_created_at = 10, c_updated_at = 40\<rparr>, example_db)"
  by (simp add: get_or_create_conversation_def example_conversations alice_neq_bob)

lemma example_ids:
  "distinct (map c_id (conversations example_db))"
  "fresh_id (conv_stamp example_env) \<notin> c_id ` set (conversations example_db)"
  "fresh_id (user_stamp example_env) \<notin> m_id ` set (messages example_db)"
  by (simp_all add: example_conversations example_messages example_env_def)

lemma strip_ascii_nonempty:
  "strip (ascii ''buy milk'') \<noteq> []" "strip (ascii ''delete task 17'') \<noteq> []"
  by (simp_all add: strip_eq_Nil_iff ascii_def isspace_def)

text \<open>
  C9. In every turn in which the agent answers (on a store with unique conversation
  ids), \<open>chat\<close> appends the user message and then the assistant message. The user message
  stores no tool calls. The assistant message stores the agent's tool calls, in order,
  as \<open>tool_name\<close>, \<open>arguments\<close>, \<open>result\<close> dictionaries when the agent returned at least one,
  and stores none (\<open>None\<close>) when the agent returned the empty list; it never stores the
  empty list.
\<close>

theorem chat_tool_calls_stored:
  assumes "strip (req_message request) \<noteq> []"
    and "distinct (map c_id (conversations db))"
    and "fresh_id (conv_stamp env) \<notin> c_id ` set (conversations db)"
    and "get_or_create_conversation (conv_stamp env) user_id
           (req_conversation_id request) db = (Inr c, db1)"
    and "run_agent user_id (strip (req_message request))
           (load_conversation_history (c_id c) db1) = Inr a"
  shows "\<exists>resp db' calls um am. chat env run_agent request user_id db = (Inr resp, db', calls)
      \<and> messages db' = messages db @ [um, am]
      \<and> m_role um = USER \<and> m_tool_calls um = None
      \<and> m_role am = ASSISTANT \<and> m_content am = a_content a
      \<and> (a_tool_calls a \<noteq> [] \<longrightarrow>
            m_tool_calls am = Some (map (\<lambda>tc. \<lparr>d_tool_name = tc_tool_name tc,
                                                 d_arguments = tc_arguments tc,
                                                 d_result = tc_result tc\<rparr>) (a_tool_calls a)))
      \<and> (a_tool_calls a = [] \<longrightarrow> m_tool_calls am = None)
      \<and> m_tool_calls am \<noteq> Some []"
proof -
  from chat_agent_answers [where run_agent = run_agent, OF assms] obtain db' where
    run: "chat env run_agent request user_id db
     = (Inr \<lparr>resp_conversation_id = c_id c, resp_response = a_content a,
             resp_tool_calls = map (\<lambda>tc. \<lparr>r_tool_name = tc_tool_name tc,
                                           r_arguments = tc_arguments tc,
                                           r_result = tc_result tc\<rparr>) (a_tool_calls a)\<rparr>,
        db',
        [\<lparr>call_user_id = user_id, call_message = strip (req_message request),
          call_history = load_conversation_history (c_id c) db1\<rparr>])"
    and msgs: "messages db' = messages db @
          [new_message (user_stamp env) (c_id c) USER (strip (req_message request)) None,
           new_message (asst_stamp env) (c_id c) ASSISTANT (a_content a)
             (if a_tool_calls a \<noteq> []
              then Some (map (\<lambda>tc. \<lparr>d_tool_name = tc_tool_name tc,
                                     d_arguments = tc_arguments tc,
                                     d_result = tc_result tc\<rparr>) (a_tool_calls a))
              else None)]"
    by blast
  show ?thesis
    unfolding run
    by (intro exI conjI, rule refl, rule msgs) (simp_all add: new_message_def)
qed

theorem chat_tool_calls_stored_witness:
  "(\<exists>resp db' calls um am.
       chat example_env tool_agent
         \<lparr>req_message = ascii ''buy milk'', req_conversation_id = Some 1\<rparr> alice example_db
         = (Inr resp, db', calls)
     \<and> messages db' = messages example_db @ [um, am]
     \<and> m_tool_calls um = None
     \<and> m_tool_calls am
         = Some [\<lparr>d_tool_name = ascii ''add_task'',
                  d_arguments = JObj [(ascii ''title'', JStr (strip (ascii ''buy milk'')))],
                  d_result = JBool True\<rparr>])
   \<and> (\<exists>resp db' calls um am.
       chat example_env plain_agent
         \<lparr>req_message = ascii ''buy milk'', req_conversation_id = Some 1\<rparr> alice example_db
         = (Inr resp, db', calls)
     \<and> messages db' = messages example_db @ [um, am]
     \<and> m_tool_calls um = None \<and> m_tool_calls am = None)"
proof -
  let ?request = "\<lparr>req_message = ascii ''buy milk'', req_conversation_id = Some 1\<rparr>"
  let ?c = "\<lparr>c_id = 1, c_user_id = alice, c_created_at = 10, c_updated_at = 40\<rparr>"
  have ne: "strip (req_message ?request) \<noteq> []"
    by (simp add: strip_ascii_nonempty)
  have goc: "get_or_create_conversation (conv_stamp example_env) alice
      (req_conversation_id ?request) example_db = (Inr ?c, example_db)"
    using example_resolves_alice by simp
  have tool: "tool_agent alice (strip (req_message ?request))
      (load_conversation_history (c_id ?c) example_db)
        = Inr \<lparr>a_content = ascii ''added'',
               a_tool_calls = [\<lparr>tc_tool_name = ascii ''add_task'',
                 tc_arguments = JObj [(ascii ''title'', JStr (strip (ascii ''buy milk'')))],
                 tc_result = JBool True\<rparr>]\<rparr>"
    by (simp add: tool_agent_def)
  have plain: "plain_agent alice (strip (req_message ?request))
      (load_conversation_history (c_id ?c) example_db)
        = Inr \<lparr>a_content = ascii ''sure'', a_tool_calls = []\<rparr>"
    by (simp add: plain_agent_def)
  from chat_tool_calls_stored [where run_agent = tool_agent, OF ne example_ids(1,2) goc tool]
  have "\<exists>resp db' calls um am.
       chat example_env tool_agent ?request alice example_db = (Inr resp, db', calls)
     \<and> messages db' = messages example_db @ [um, am]
     \<and> m_tool_calls um = None
     \<and> m_tool_calls am
         = Some [\<lparr>d_tool_name = ascii ''add_task'',
                  d_arguments = JObj [(ascii ''title'', JStr (strip (ascii ''buy milk'')))],
                  d_result = JBool True\<rparr>]"
    by simp blast
  moreover from chat_tool_calls_stored [where run_agent = plain_agent, OF ne example_ids(1,2) goc plain]
  have "\<exists>resp db' calls um am.
       chat example_env plain_agent ?request alice example_db = (Inr resp, db', calls)
     \<and> messages db' = messages example_db @ [um, am]
     \<and> m_tool_calls um = None \<and> m_tool_calls am = None"
    by simp blast
  ultimately show ?thesis by blast
qed

subsection \<open>Deleting a conversation\<close>

lemma foldl_delete_message:
  "foldl delete_message db msgs
     = db\<lparr>messages := filter (\<lambda>r. m_id r \<notin> m_id ` set msgs) (messages db)\<rparr>"
proof (induction msgs arbitrary: db)
  case Nil
  then show ?case by simp
next
  case (Cons msg msgs)
  have filt: "filter (\<lambda>r. m_id r \<notin> m_id ` set msgs) (filter (\<lambda>r. m_id r \<noteq> m_id msg) (messages db))
      = filter (\<lambda>r. m_id r \<notin> m_id ` set (msg # msgs)) (messages db)"
    by (auto intro: filter_cong)
  have "foldl delete_message db (msg # msgs) = foldl delete_message (delete_message db msg) msgs"
    by simp
  also have "\<dots> = (delete_message db msg)
      \<lparr>messages := filter (\<lambda>r. m_id r \<notin> m_id ` set msgs) (messages (delete_message db msg))\<rparr>"
    by (rule Cons.IH)
  also have "\<dots> = db\<lparr>messages := filter (\<lambda>r. m_id r \<notin> m_id ` set (msg # msgs)) (messages db)\<rparr>"
    using filt by (simp add: delete_message_def)
  finally show ?case .
qed

lemma delete_conversation_found:
  assumes "filter (\<lambda>c. c_id c = cid \<and> c_user_id c = owner) (conversations db) = [c]"
  shows "delete_conversation cid owner db
     = (Inr (),
        db\<lparr>messages :=
             filter (\<lambda>r. m_id r \<notin> m_id ` {m \<in> set (messages db). m_conversation_id m = cid})
               (messages db),
           conversations := filter (\<lambda>r. c_id r \<noteq> cid) (conversations db)\<rparr>)"
proof -
  have "c \<in> set (filter (\<lambda>c. c_id c = cid \<and> c_user_id c = owner) (conversations db))"
    using assms by simp
  then have "c_id c = cid" by simp
  then show ?thesis
    using assms
    by (simp add: delete_conversation_def Let_def foldl_delete_message delete_conversation_row_def)
qed

lemma delete_conversation_cases:
  assumes "delete_conversation cid owner db = (r, db')"
  shows "((\<exists>e. r = Inl e) \<and> db' = db)
       \<or> (r = Inr ()
          \<and> db' = db\<lparr>messages :=
                filter (\<lambda>r. m_id r \<notin> m_id ` {m \<in> set (messages db). m_conversation_id m = cid})
                  (messages db),
              conversations := filter (\<lambda>r. c_id r \<noteq> cid) (conversations db)\<rparr>)"
proof (cases "filter (\<lambda>c. c_id c = cid \<and> c_user_id c = owner) (conversations db)")
  case Nil
  then show ?thesis using assms by (auto simp: delete_conversation_def)
next
  case (Cons a rest)
  show ?thesis
  proof (cases rest)
    case Nil
    with Cons have "filter (\<lambda>c. c_id c = cid \<and> c_user_id c = owner) (conversations db) = [a]"
      by simp
    from delete_conversation_found [OF this] assms show ?thesis by simp
  next
    case (Cons b rest')
    with \<open>filter (\<lambda>c. c_id c = cid \<and> c_user_id c = owner) (conversations db) = a # rest\<close>
    show ?thesis using assms by (auto simp: delete_conversation_def)
  qed
qed

lemma deleted_messages_gone:
  "\<forall>m \<in> set (filter (\<lambda>r. m_id r \<notin> m_id ` {m \<in> set msgs. m_conversation_id m = cid}) msgs).
      m_conversation_id m \<noteq> cid"
proof
  fix m
  assume "m \<in> set (filter (\<lambda>r. m_id r \<notin> m_id ` {m \<in> set msgs. m_conversation_id m = cid}) msgs)"
  then have m: "m \<in> set msgs"
    and out: "m_id m \<notin> m_id ` {m \<in> set msgs. m_conversation_id m = cid}"
    by simp_all
  show "m_conversation_id m \<noteq> cid"
  proof
    assume "m_conversation_id m = cid"
    with m have "m \<in> {m \<in> set msgs. m_conversation_id m = cid}" by simp
    then have "m_id m \<in> m_id ` {m \<in> set msgs. m_conversation_id m = cid}" by (rule imageI)
    with out show False by contradiction
  qed
qed

lemma deleted_messages_exact:
  assumes "distinct (map m_id msgs)"
  shows "filter (\<lambda>r. m_id r \<notin> m_id ` {m \<in> set msgs. m_conversation_id m = cid}) msgs
       = filter (\<lambda>m. m_conversation_id m \<noteq> cid) msgs"
proof (rule filter_cong [OF refl])
  fix r
  assume r: "r \<in> set msgs"
  have inj: "inj_on m_id (set msgs)"
    using assms by (simp add: distinct_map)
  show "(m_id r \<notin> m_id ` {m \<in> set msgs. m_conversation_id m = cid})
      = (m_conversation_id r \<noteq> cid)"
  proof
    assume "m_id r \<notin> m_id ` {m \<in> set msgs. m_conversation_id m = cid}"
    then show "m_conversation_id r \<noteq> cid" using r by auto
  next
    assume ne: "m_conversation_id r \<noteq> cid"
    show "m_id r \<notin> m_id ` {m \<in> set msgs. m_conversation_id m = cid}"
    proof
      assume "m_id r \<in> m_id ` {m \<in> set msgs. m_conversation_id m = cid}"
      then obtain m where "m \<in> set msgs" "m_conversation_id m = cid" "m_id r = m_id m"
        by auto
      then have "r = m" using inj r by (simp add: inj_on_def)
      then show False using ne \<open>m_conversation_id m = cid\<close> by simp
    qed
  qed
qed

text \<open>
  C5. \<open>delete_conversation\<close> raises the 404 \<open>HTTPException\<close> (``Conversation not found.'')
  and leaves the store unchanged when no conversation has the given id and owner.
  Otherwise (conversation ids being unique) it succeeds, and in the store it commits no
  message of that conversation and no conversation row of that id remains; the other
  conversations are kept and, message ids being unique, so are exactly the messages of
  other conversations; \<open>get_conversation_messages\<close> then reports 404. Whatever the input,
  the resulting store is either the store before the call or one with the conversation
  and all its messages removed: never one with only the messages or only the
  conversation row removed.
\<close>

theorem delete_conversation_atomic:
  "(\<not> (\<exists>c \<in> set (conversations db). c_id c = cid \<and> c_user_id c = owner) \<longrightarrow>
       delete_conversation cid owner db = (Inl not_found, db))
   \<and> (distinct (map c_id (conversations db))
        \<and> (\<exists>c \<in> set (conversations db). c_id c = cid \<and> c_user_id c = owner) \<longrightarrow>
       (\<exists>db'. delete_conversation cid owner db = (Inr (), db')
          \<and> (\<forall>m \<in> set (messages db'). m_conversation_id m \<noteq> cid)
          \<and> (\<forall>c \<in> set (conversations db'). c_id c \<noteq> cid)
          \<and> conversations db' = filter (\<lambda>c. c_id c \<noteq> cid) (conversations db)
          \<and> set (messages db') \<subseteq> set (messages db)
          \<and> (distinct (map m_id (messages db)) \<longrightarrow>
                messages db' = filter (\<lambda>m. m_conversation_id m \<noteq> cid) (messages db))
          \<and> get_conversation_messages cid owner db' = Inl not_found))
   \<and> (\<forall>r db'. delete_conversation cid owner db = (r, db') \<longrightarrow>
         ((\<exists>e. r = Inl e) \<and> db' = db)
       \<or> (r = Inr ()
           \<and> (\<forall>m \<in> set (messages db'). m_conversation_id m \<noteq> cid)
           \<and> (\<forall>c \<in> set (conversations db'). c_id c \<noteq> cid)))"
proof (intro conjI allI impI)
  assume "\<not> (\<exists>c \<in> set (conversations db). c_id c = cid \<and> c_user_id c = owner)"
  then have "filter (\<lambda>c. c_id c = cid \<and> c_user_id c = owner) (conversations db) = []"
    by (rule filter_key_empty)
  then show "delete_conversation cid owner db = (Inl not_found, db)"
    by (simp add: delete_conversation_def)
next
  assume h: "distinct (map c_id (conversations db))
        \<and> (\<exists>c \<in> set (conversations db). c_id c = cid \<and> c_user_id c = owner)"
  then obtain c where c: "c \<in> set (conversations db)" "c_id c = cid" "c_user_id c = owner"
    by blast
  have "filter (\<lambda>c. c_id c = cid \<and> c_user_id c = owner) (conversations db) = [c]"
    by (rule filter_unique_key [where k = c_id]) (use h c in auto)
  note run = delete_conversation_found [OF this]
  let ?db' = "db\<lparr>messages :=
             filter (\<lambda>r. m_id r \<notin> m_id ` {m \<in> set (messages db). m_conversation_id m = cid})
               (messages db),
           conversations := filter (\<lambda>r. c_id r \<noteq> cid) (conversations db)\<rparr>"
  have gone: "filter (\<lambda>c. c_id c = cid \<and> c_user_id c = owner) (conversations ?db') = []"
    by (simp add: filter_empty_conv)
  have msgs': "messages ?db'
      = filter (\<lambda>r. m_id r \<notin> m_id ` {m \<in> set (messages db). m_conversation_id m = cid})
          (messages db)"
    by simp
  show "\<exists>db'. delete_conversation cid owner db = (Inr (), db')
          \<and> (\<forall>m \<in> set (messages db'). m_conversation_id m \<noteq> cid)
          \<and> (\<forall>c \<in> set (conversations db'). c_id c \<noteq> cid)
          \<and> conversations db' = filter (\<lambda>c. c_id c \<noteq> cid) (conversations db)
          \<and> set (messages db') \<subseteq> set (messages db)
          \<and> (distinct (map m_id (messages db)) \<longrightarrow>
                messages db' = filter (\<lambda>m. m_conversation_id m \<noteq> cid) (messages db))
          \<and> get_conversation_messages cid owner db' = Inl not_found"
  proof (intro exI [of _ ?db'] conjI impI)
    show "delete_conversation cid owner db = (Inr (), ?db')" by (rule run)
    show "\<forall>m \<in> set (messages ?db'). m_conversation_id m \<noteq> cid"
      unfolding msgs' by (rule deleted_messages_gone)
    show "\<forall>c \<in> set (conversations ?db'). c_id c \<noteq> cid" by simp
    show "conversations ?db' = filter (\<lambda>c. c_id c \<noteq> cid) (conversations db)" by simp
    show "set (messages ?db') \<subseteq> set (messages db)"
      unfolding msgs' by (rule filter_is_subset)
    show "messages ?db' = filter (\<lambda>m. m_conversation_id m \<noteq> cid) (messages db)"
      if "distinct (map m_id (messages db))"
      unfolding msgs' by (rule deleted_messages_exact [OF that])
    show "get_conversation_messages cid owner ?db' = Inl not_found"
      unfolding get_conversation_messages_def gone by simp
  qed
next
  fix r db'
  assume "delete_conversation cid owner db = (r, db')"
  from delete_conversation_cases [OF this]
  show "((\<exists>e. r = Inl e) \<and> db' = db)
       \<or> (r = Inr ()
           \<and> (\<forall>m \<in> set (messages db'). m_conversation_id m \<noteq> cid)
           \<and> (\<forall>c \<in> set (conversations db'). c_id c \<noteq> cid))"
  proof (elim disjE conjE)
    assume "\<exists>e. r = Inl e" and "db' = db"
    then show ?thesis by simp
  next
    assume r: "r = Inr ()"
      and db': "db' = db\<lparr>messages :=
                filter (\<lambda>r. m_id r \<notin> m_id ` {m \<in> set (messages db). m_conversation_id m = cid})
                  (messages db),
              conversations := filter (\<lambda>r. c_id r \<noteq> cid) (conversations db)\<rparr>"
    have m': "messages db'
        = filter (\<lambda>r. m_id r \<notin> m_id ` {m \<in> set (messages db). m_conversation_id m = cid})
            (messages db)"
      by (simp add: db')
    have "\<forall>m \<in> set (messages db'). m_conversation_id m \<noteq> cid"
      unfolding m' by (rule deleted_messages_gone)
    moreover have "\<forall>c \<in> set (conversations db'). c_id c \<noteq> cid"
      by (simp add: db')
    ultimately show ?thesis using r by simp
  qed
qed

theorem delete_conversation_atomic_witness:
  "delete_conversation 1 bob example_db = (Inl not_found, example_db)
   \<and> (\<exists>db'. delete_conversation 1 alice example_db = (Inr (), db')
         \<and> map c_id (conversations db') = [2, 3]
         \<and> map m_id (messages db') = [14]
         \<and> get_conversation_messages 1 alice db' = Inl not_found)"
proof -
  note inst_bob = delete_conversation_atomic [of example_db 1 bob]
  note inst_alice = delete_conversation_atomic [of example_db 1 alice]
  have none: "\<not> (\<exists>c \<in> set (conversations example_db). c_id c = 1 \<and> c_user_id c = bob)"
    by (simp add: example_conversations alice_neq_bob)
  have some: "distinct (map c_id (conversations example_db))
        \<and> (\<exists>c \<in> set (conversations example_db). c_id c = 1 \<and> c_user_id c = alice)"
    by (simp add: example_conversations)
  have dm: "distinct (map m_id (messages example_db))"
    by (simp add: example_messages)
  from inst_bob none
  have "delete_conversation 1 bob example_db = (Inl not_found, example_db)" by blast
  moreover from inst_alice some dm obtain db' where
    "delete_conversation 1 alice example_db = (Inr (), db')"
    "conversations db' = filter (\<lambda>c. c_id c \<noteq> 1) (conversations example_db)"
    "messages db' = filter (\<lambda>m. m_conversation_id m \<noteq> 1) (messages example_db)"
    "get_conversation_messages 1 alice db' = Inl not_found"
    by blast
  then have "\<exists>db'. delete_conversation 1 alice example_db = (Inr (), db')
         \<and> map c_id (conversations db') = [2, 3]
         \<and> map m_id (messages db') = [14]
         \<and> get_conversation_messages 1 alice db' = Inl not_found"
    by (intro exI [of _ db']) (simp add: example_conversations example_messages)
  ultimately show ?thesis by blast
qed

subsection \<open>Listing conversations\<close>

lemma scalar_one_or_none_take_1:
  "scalar_one_or_none (take 1 rows) = Inr (case rows of [] \<Rightarrow> None | x # _ \<Rightarrow> Some x)"
  by (cases rows) simp_all

lemma sort_key_head_least:
  assumes "sort_key f xs = m # rest"
  shows "m \<in> set xs" and "\<forall>x \<in> set xs. f m \<le> f x"
proof -
  have "set (sort_key f xs) = set xs" by simp
  then have s: "set xs = insert m (set rest)" using assms by simp
  then show "m \<in> set xs" by simp
  have "sorted (map f (sort_key f xs))" by (rule sorted_sort_key)
  then have "\<forall>x \<in> set rest. f m \<le> f x" using assms by simp
  then show "\<forall>x \<in> set xs. f m \<le> f x" using s by simp
qed

lemma conversation_response_eq:
  "conversation_response conv db
     = Inr \<lparr>cr_id = c_id conv, cr_created_at = c_created_at conv,
            cr_updated_at = c_updated_at conv,
            cr_preview =
              (case sort_key m_created_at
                      (filter (\<lambda>m. m_conversation_id m = c_id conv \<and> m_role m = USER)
                         (messages db)) of
                 [] \<Rightarrow> ascii ''New conversation''
               | m # _ \<Rightarrow> take 80 (m_content m))\<rparr>"
  by (simp add: conversation_response_def scalar_one_or_none_take_1 split: list.split)

lemma collect_responses_eq:
  "collect_responses convs db responses
     = Inr (responses @
         map (\<lambda>conv. \<lparr>cr_id = c_id conv, cr_created_at = c_created_at conv,
            cr_updated_at = c_updated_at conv,
            cr_preview =
              (case sort_key m_created_at
                      (filter (\<lambda>m. m_conversation_id m = c_id conv \<and> m_role m = USER)
                         (messages db)) of
                 [] \<Rightarrow> ascii ''New conversation''
               | m # _ \<Rightarrow> take 80 (m_content m))\<rparr>) convs)"
  by (induction convs arbitrary: responses) (simp_all add: conversation_response_eq)

lemma preview_correct:
  fixes db :: db and c :: Conversation
  defines "users \<equiv> filter (\<lambda>m. m_conversation_id m = c_id c \<and> m_role m = USER) (messages db)"
  defines "preview \<equiv> (case sort_key m_created_at users of
                         [] \<Rightarrow> ascii ''New conversation''
                       | m # _ \<Rightarrow> take 80 (m_content m))"
  shows "length preview \<le> 80"
    and "if \<exists>m \<in> set (messages db). m_conversation_id m = c_id c \<and> m_role m = USER
         then \<exists>m \<in> set (messages db). m_conversation_id m = c_id c \<and> m_role m = USER
                \<and> (\<forall>m' \<in> set (messages db).
                      m_conversation_id m' = c_id c \<and> m_role m' = USER
                        \<longrightarrow> m_created_at m \<le> m_created_at m')
                \<and> preview = take 80 (m_content m)
         else preview = ascii ''New conversation''"
proof -
  show "length preview \<le> 80"
    by (simp add: preview_def ascii_def split: list.split)
  show "if \<exists>m \<in> set (messages db). m_conversation_id m = c_id c \<and> m_role m = USER
         then \<exists>m \<in> set (messages db). m_conversation_id m = c_id c \<and> m_role m = USER
                \<and> (\<forall>m' \<in> set (messages db).
                      m_conversation_id m' = c_id c \<and> m_role m' = USER
                        \<longrightarrow> m_created_at m \<le> m_created_at m')
                \<and> preview = take 80 (m_content m)
         else preview = ascii ''New conversation''"
  proof (cases "sort_key m_created_at users")
    case Nil
    then have "set users = {}"
      by (metis set_sort set_empty2 list.set(1))
    then have "\<not> (\<exists>m \<in> set (messages db). m_conversation_id m = c_id c \<and> m_role m = USER)"
      by (auto simp: users_def filter_empty_conv)
    moreover have "preview = ascii ''New conversation''" by (simp add: preview_def Nil)
    ultimately show ?thesis by (simp only: if_False)
  next
    case (Cons m rest)
    from sort_key_head_least [OF Cons]
    have min: "m \<in> set users" and least: "\<forall>x \<in> set users. m_created_at m \<le> m_created_at x"
      by simp_all
    have mem: "m \<in> set (messages db)" "m_conversation_id m = c_id c" "m_role m = USER"
      using min by (simp_all add: users_def)
    have least': "\<forall>m' \<in> set (messages db).
        m_conversation_id m' = c_id c \<and> m_role m' = USER \<longrightarrow> m_created_at m \<le> m_created_at m'"
      using least by (simp add: users_def)
    have "preview = take 80 (m_content m)" by (simp add: preview_def Cons)
    moreover have "\<exists>m \<in> set (messages db). m_conversation_id m = c_id c \<and> m_role m = USER"
      using mem by blast
    ultimately show ?thesis using mem least' by (simp only: if_True) blast
  qed
qed

text \<open>
  C8. For every owner, \<open>list_conversations\<close> raises nothing and returns one entry for each
  conversation of that owner and for no other (the listed conversations are a
  rearrangement of the owner's rows), in descending order of \<open>updated_at\<close>. Each entry
  carries the conversation's id and timestamps, and a preview of at most 80 code points:
  when the conversation has a message of role user, the first 80 code points of the
  content of one with the least \<open>created_at\<close> among them; otherwise the string
  ``New conversation''.
\<close>

theorem list_conversations_preview:
  "\<exists>rs convs. list_conversations owner db = Inr rs
      \<and> mset convs = mset (filter (\<lambda>c. c_user_id c = owner) (conversations db))
      \<and> sorted_wrt (\<ge>) (map c_updated_at convs)
      \<and> list_all2
           (\<lambda>c r. cr_id r = c_id c \<and> cr_created_at r = c_created_at c
                \<and> cr_updated_at r = c_updated_at c
                \<and> length (cr_preview r) \<le> 80
                \<and> (if \<exists>m \<in> set (messages db). m_conversation_id m = c_id c \<and> m_role m = USER
                    then \<exists>m \<in> set (messages db). m_conversation_id m = c_id c \<and> m_role m = USER
                           \<and> (\<forall>m' \<in> set (messages db).
                                 m_conversation_id m' = c_id c \<and> m_role m' = USER
                                   \<longrightarrow> m_created_at m \<le> m_created_at m')
                           \<and> cr_preview r = take 80 (m_content m)
                    else cr_preview r = ascii ''New conversation''))
           convs rs"
proof -
  let ?convs = "sort_key (\<lambda>c. - c_updated_at c)
                  (filter (\<lambda>c. c_user_id c = owner) (conversations db))"
  let ?resp = "\<lambda>conv. \<lparr>cr_id = c_id conv, cr_created_at = c_created_at conv,
            cr_updated_at = c_updated_at conv,
            cr_preview =
              (case sort_key m_created_at
                      (filter (\<lambda>m. m_conversation_id m = c_id conv \<and> m_role m = USER)
                         (messages db)) of
                 [] \<Rightarrow> ascii ''New conversation''
               | m # _ \<Rightarrow> take 80 (m_content m))\<rparr>"
  have run: "list_conversations owner db = Inr (map ?resp ?convs)"
    by (simp add: list_conversations_def collect_responses_eq)
  have perm: "mset ?convs = mset (filter (\<lambda>c. c_user_id c = owner) (conversations db))"
    by simp
  have "sorted (map (\<lambda>c. - c_updated_at c) ?convs)"
    by (rule sorted_sort_key)
  then have desc: "sorted_wrt (\<ge>) (map c_updated_at ?convs)"
    by (simp add: sorted_wrt_map)
  have each: "list_all2
           (\<lambda>c r. cr_id r = c_id c \<and> cr_created_at r = c_created_at c
                \<and> cr_updated_at r = c_updated_at c
                \<and> length (cr_preview r) \<le> 80
                \<and> (if \<exists>m \<in> set (messages db). m_conversation_id m = c_id c \<and> m_role m = USER
                    then \<exists>m \<in> set (messages db). m_conversation_id m = c_id c \<and> m_role m = USER
                           \<and> (\<forall>m' \<in> set (messages db).
                                 m_conversation_id m' = c_id c \<and> m_role m' = USER
                                   \<longrightarrow> m_created_at m \<le> m_created_at m')
                           \<and> cr_preview r = take 80 (m_content m)
                    else cr_preview r = ascii ''New conversation''))
           ?convs (map ?resp ?convs)"
    unfolding list_all2_map2 list_all2_same
  proof (intro ballI conjI)
    fix c :: Conversation
    show "length (cr_preview (?resp c)) \<le> 80"
      using preview_correct(1) [where c = c and db = db] by simp
    show "if \<exists>m \<in> set (messages db). m_conversation_id m = c_id c \<and> m_role m = USER
          then \<exists>m \<in> set (messages db). m_conversation_id m = c_id c \<and> m_role m = USER
                 \<and> (\<forall>m' \<in> set (messages db).
                       m_conversation_id m' = c_id c \<and> m_role m' = USER
                         \<longrightarrow> m_created_at m \<le> m_created_at m')
                 \<and> cr_preview (?resp c) = take 80 (m_content m)
          else cr_preview (?resp c) = ascii ''New conversation''"
      using preview_correct(2) [where c = c and db = db] by simp
  qed simp_all
  from run perm desc each show ?thesis by blast
qed

theorem list_conversations_preview_witness:
  "list_conversations alice example_db
     = Inr [\<lparr>cr_id = 3, cr_created_at = 50, cr_updated_at = 60,
             cr_preview = ascii ''New conversation''\<rparr>,
            \<lparr>cr_id = 1, cr_created_at = 10, cr_updated_at = 40,
             cr_preview = ascii ''hello there''\<rparr>]
   \<and> (\<exists>rs. list_conversations alice example_db = Inr rs
         \<and> length rs = length (filter (\<lambda>c. c_user_id c = alice) (conversations example_db))
         \<and> (\<forall>r \<in> set rs. length (cr_preview r) \<le> 80))"
proof -
  have eval: "list_conversations alice example_db
     = Inr [\<lparr>cr_id = 3, cr_created_at = 50, cr_updated_at = 60,
             cr_preview = ascii ''New conversation''\<rparr>,
            \<lparr>cr_id = 1, cr_created_at = 10, cr_updated_at = 40,
             cr_preview = ascii ''hello there''\<rparr>]"
    by (simp add: list_conversations_def conversation_response_def example_conversations
        example_messages alice_neq_bob ascii_def)
  from list_conversations_preview [of alice example_db] obtain rs convs where
    run: "list_conversations alice example_db = Inr rs"
    and perm: "mset convs = mset (filter (\<lambda>c. c_user_id c = alice) (conversations example_db))"
    and each: "list_all2 (\<lambda>c r. cr_id r = c_id c \<and> cr_created_at r = c_created_at c
                \<and> cr_updated_at r = c_updated_at c
                \<and> length (cr_preview r) \<le> 80
                \<and> (if \<exists>m \<in> set (messages example_db). m_conversation_id m = c_id c \<and> m_role m = USER
                    then \<exists>m \<in> set (messages example_db). m_conversation_id m = c_id c \<and> m_role m = USER
                           \<and> (\<forall>m' \<in> set (messages example_db).
                                 m_conversation_id m' = c_id c \<and> m_role m' = USER
                                   \<longrightarrow> m_created_at m \<le> m_created_at m')
                           \<and> cr_preview r = take 80 (m_content m)
                    else cr_preview r = ascii ''New conversation''))
           convs rs"
    by blast
  have "length rs = length convs"
    using each by (simp add: list_all2_lengthD)
  also have "\<dots> = length (filter (\<lambda>c. c_user_id c = alice) (conversations example_db))"
    using perm by (metis size_mset)
  finally have len: "length rs
      = length (filter (\<lambda>c. c_user_id c = alice) (conversations example_db))" .
  have "\<forall>r \<in> set rs. length (cr_preview r) \<le> 80"
    using each by (auto simp: list_all2_conv_all_nth in_set_conv_nth)
  with run len eval show ?thesis by blast
qed

subsection \<open>A turn in which the agent raises\<close>

text \<open>
  C3, as the code has it. In every turn in which the call of the agent raises (on a store
  with unique conversation ids), the user message saved before the call is stored, it is
  the only message the turn adds, so no assistant message is written, and \<open>chat\<close> raises.
  What the caller receives depends on the agent's exception: an instance of \<open>Exception\<close>
  other than \<open>HTTPException\<close> is replaced by the status 500 with the fixed generic detail,
  which does not depend on the exception; an \<open>HTTPException\<close> is raised again as it is;
  and an exception that is not an instance of \<open>Exception\<close> is not caught and leaves
  \<open>chat\<close> as it is.
\<close>

theorem chat_agent_failure:
  assumes "strip (req_message request) \<noteq> []"
    and "distinct (map c_id (conversations db))"
    and "fresh_id (conv_stamp env) \<notin> c_id ` set (conversations db)"
    and "get_or_create_conversation (conv_stamp env) user_id
           (req_conversation_id request) db = (Inr c, db1)"
    and "run_agent user_id (strip (req_message request))
           (load_conversation_history (c_id c) db1) = Inl e"
  shows "\<exists>r db' calls um. chat env run_agent request user_id db = (Inl r, db', calls)
      \<and> um = new_message (user_stamp env) (c_id c) USER (strip (req_message request)) None
      \<and> messages db' = messages db @ [um]
      \<and> filter (\<lambda>m. m_role m = ASSISTANT) (messages db')
          = filter (\<lambda>m. m_role m = ASSISTANT) (messages db)
      \<and> (\<forall>status_code detail. e = HTTPException status_code detail \<longrightarrow>
            r = HTTPException status_code detail)
      \<and> (\<forall>detail. e = BaseException detail \<longrightarrow> r = BaseException detail)
      \<and> ((\<forall>status_code detail. e \<noteq> HTTPException status_code detail)
            \<and> (\<forall>detail. e \<noteq> BaseException detail) \<longrightarrow>
            r = HTTPException 500 generic_failure_detail)"
proof -
  have outcome:
    "(\<forall>status_code detail. e = HTTPException status_code detail \<longrightarrow>
        handle_exception e = HTTPException status_code detail)
     \<and> (\<forall>detail. e = BaseException detail \<longrightarrow> handle_exception e = BaseException detail)
     \<and> ((\<forall>status_code detail. e \<noteq> HTTPException status_code detail)
            \<and> (\<forall>detail. e \<noteq> BaseException detail) \<longrightarrow>
          handle_exception e = HTTPException 500 generic_failure_detail)"
    by (cases e) simp_all
  show ?thesis
    unfolding chat_agent_raises [where run_agent = run_agent, OF assms]
    using outcome by (simp add: new_message_def)
qed

theorem chat_agent_failure_witness:
  "\<exists>db' calls. chat example_env failing_agent
       \<lparr>req_message = ascii ''buy milk'', req_conversation_id = Some 1\<rparr> alice example_db
     = (Inl (HTTPException 500 generic_failure_detail), db', calls)
     \<and> messages db' = messages example_db
         @ [new_message (user_stamp example_env) 1 USER (strip (ascii ''buy milk'')) None]"
proof -
  let ?request = "\<lparr>req_message = ascii ''buy milk'', req_conversation_id = Some 1\<rparr>"
  let ?c = "\<lparr>c_id = 1, c_user_id = alice, c_created_at = 10, c_updated_at = 40\<rparr>"
  have ne: "strip (req_message ?request) \<noteq> []"
    by (simp add: strip_ascii_nonempty)
  have goc: "get_or_create_conversation (conv_stamp example_env) alice
      (req_conversation_id ?request) example_db = (Inr ?c, example_db)"
    using example_resolves_alice by simp
  have raises: "failing_agent alice (strip (req_message ?request))
      (load_conversation_history (c_id ?c) example_db)
        = Inl (OtherException (ascii ''model timeout''))"
    by (simp add: failing_agent_def)
  from chat_agent_failure [where run_agent = failing_agent, OF ne example_ids(1,2) goc raises]
  show ?thesis by auto
qed

text \<open>
  The statement of C3 fails for an agent that raises an \<open>HTTPException\<close>: the first
  \<open>except\<close> clause raises it again, and the caller receives the agent's own status and
  detail. It fails as well for an agent whose call is cancelled: \<open>CancelledError\<close> is not
  an \<open>Exception\<close> and reaches the caller as it is.
\<close>

theorem chat_agent_failure_counterexample:
  "http_failing_agent alice (strip (ascii ''delete task 17''))
       (load_conversation_history 1 example_db)
     = Inl (HTTPException 404 (ascii ''Task 17 of alice not found''))
   \<and> fst (chat example_env http_failing_agent
         \<lparr>req_message = ascii ''delete task 17'', req_conversation_id = Some 1\<rparr>
         alice example_db)
     = Inl (HTTPException 404 (ascii ''Task 17 of alice not found''))
   \<and> HTTPException 404 (ascii ''Task 17 of alice not found'')
     \<noteq> HTTPException 500 generic_failure_detail
   \<and> fst (chat example_env cancelled_agent
         \<lparr>req_message = ascii ''delete task 17'', req_conversation_id = Some 1\<rparr>
         alice example_db)
     = Inl (BaseException (ascii ''CancelledError''))"
proof -
  let ?request = "\<lparr>req_message = ascii ''delete task 17'', req_conversation_id = Some 1\<rparr>"
  let ?c = "\<lparr>c_id = 1, c_user_id = alice, c_created_at = 10, c_updated_at = 40\<rparr>"
  have ne: "strip (req_message ?request) \<noteq> []"
    by (simp add: strip_ascii_nonempty)
  have goc: "get_or_create_conversation (conv_stamp example_env) alice
      (req_conversation_id ?request) example_db = (Inr ?c, example_db)"
    using example_resolves_alice by simp
  have raises: "http_failing_agent alice (strip (req_message ?request))
      (load_conversation_history (c_id ?c) example_db)
        = Inl (HTTPException 404 (ascii ''Task 17 of alice not found''))"
    by (simp add: http_failing_agent_def)
  have cancelled: "cancelled_agent alice (strip (req_message ?request))
      (load_conversation_history (c_id ?c) example_db)
        = Inl (BaseException (ascii ''CancelledError''))"
    by (simp add: cancelled_agent_def)
  show ?thesis
    unfolding chat_agent_raises [where run_agent = http_failing_agent,
        OF ne example_ids(1,2) goc raises]
      chat_agent_raises [where run_agent = cancelled_agent,
        OF ne example_ids(1,2) goc cancelled]
    by (simp add: http_failing_agent_def)
qed

subsection \<open>Touching the conversation\<close>




subsection \<open>The history given to the agent\<close>

text \<open>
  C4. In every turn that reaches the agent (a non-empty message, on a store with unique
  conversation ids), the outcome of \<open>chat\<close> is the outcome of \<open>run_agent\<close> applied to the
  owner, the stripped message and \<open>load_conversation_history\<close> of the turn's conversation
  on the store as it was before the call of \<open>chat\<close>: the response carries the content and
  tool calls of that application, or \<open>chat\<close> raises what \<open>handle_exception\<close> makes of its
  exception, and that application is the one call recorded. This history is the
  projection of rows that were already stored, none of which is the user message of
  this turn (whose id is new); that message is stored when \<open>chat\<close> returns, where the
  projection of the conversation is strictly longer than the history the agent was
  given.
\<close>

theorem chat_history_before_user_message:
  assumes "strip (req_message request) \<noteq> []"
    and "distinct (map c_id (conversations db))"
    and "fresh_id (conv_stamp env) \<notin> c_id ` set (conversations db)"
    and "get_or_create_conversation (conv_stamp env) user_id
           (req_conversation_id request) db = (Inr c, db1)"
    and "fresh_id (user_stamp env) \<notin> m_id ` set (messages db)"
  shows "\<exists>rows db'.
        load_conversation_history (c_id c) db
          = map (\<lambda>msg. \<lparr>h_role = m_role msg, h_content = m_content msg\<rparr>) rows
      \<and> set rows \<subseteq> set (messages db)
      \<and> new_message (user_stamp env) (c_id c) USER (strip (req_message request)) None
            \<notin> set rows
      \<and> chat env run_agent request user_id db
          = ((case run_agent user_id (strip (req_message request))
                     (load_conversation_history (c_id c) db) of
                Inl e \<Rightarrow> Inl (handle_exception e)
              | Inr a \<Rightarrow>
                  Inr \<lparr>resp_conversation_id = c_id c, resp_response = a_content a,
                       resp_tool_calls =
                         map (\<lambda>tc. \<lparr>r_tool_name = tc_tool_name tc,
                                     r_arguments = tc_arguments tc,
                                     r_result = tc_result tc\<rparr>) (a_tool_calls a)\<rparr>),
             db',
             [\<lparr>call_user_id = user_id, call_message = strip (req_message request),
               call_history = load_conversation_history (c_id c) db\<rparr>])
      \<and> new_message (user_stamp env) (c_id c) USER (strip (req_message request)) None
            \<in> set (messages db')
      \<and> length (load_conversation_history (c_id c) db)
            < length (load_conversation_history (c_id c) db')"
proof -
  let ?msg = "strip (req_message request)"
  let ?um = "new_message (user_stamp env) (c_id c) USER ?msg None"
  let ?rows = "sort_key m_created_at
                 (filter (\<lambda>m. m_conversation_id m = c_id c) (messages db))"
  let ?h = "load_conversation_history (c_id c) db"
  have m1: "messages db1 = messages db"
    using get_or_create_conversation_Inr(2) [OF assms(4)] .
  have h1: "load_conversation_history (c_id c) db1 = ?h"
    by (rule load_conversation_history_messages [OF m1])
  have proj: "?h = map (\<lambda>msg. \<lparr>h_role = m_role msg, h_content = m_content msg\<rparr>) ?rows"
    by (simp add: load_conversation_history_def)
  have sub: "set ?rows \<subseteq> set (messages db)" by auto
  have "m_id ?um = fresh_id (user_stamp env)" by (simp add: new_message_def)
  then have "?um \<notin> set (messages db)"
    using assms(5) by (metis image_eqI)
  then have notin: "?um \<notin> set ?rows" using sub by blast
  have conv: "m_conversation_id ?um = c_id c" by (simp add: new_message_def)
  have longer: "length ?h < length (load_conversation_history (c_id c) db')"
    if "messages db' = messages db @ ?um # tail" for db' tail
    using that conv by (simp add: load_conversation_history_def)
  have "\<exists>db'. chat env run_agent request user_id db
          = ((case run_agent user_id ?msg ?h of
                Inl e \<Rightarrow> Inl (handle_exception e)
              | Inr a \<Rightarrow>
                  Inr \<lparr>resp_conversation_id = c_id c, resp_response = a_content a,
                       resp_tool_calls =
                         map (\<lambda>tc. \<lparr>r_tool_name = tc_tool_name tc,
                                     r_arguments = tc_arguments tc,
                                     r_result = tc_result tc\<rparr>) (a_tool_calls a)\<rparr>),
             db',
             [\<lparr>call_user_id = user_id, call_message = ?msg, call_history = ?h\<rparr>])
      \<and> (\<exists>tail. messages db' = messages db @ ?um # tail)"
  proof (cases "run_agent user_id ?msg ?h")
    case (Inl e)
    then have raises: "run_agent user_id ?msg (load_conversation_history (c_id c) db1) = Inl e"
      by (simp add: h1)
    show ?thesis
      unfolding chat_agent_raises [where run_agent = run_agent,
          OF assms(1) assms(2) assms(3) assms(4) raises]
      by (simp add: Inl h1)
  next
    case (Inr a)
    then have answers: "run_agent user_id ?msg (load_conversation_history (c_id c) db1) = Inr a"
      by (simp add: h1)
    from chat_agent_answers [where run_agent = run_agent,
        OF assms(1) assms(2) assms(3) assms(4) answers]
    obtain db' where
      run: "chat env run_agent request user_id db
        = (Inr \<lparr>resp_conversation_id = c_id c, resp_response = a_content a,
               resp_tool_calls = map (\<lambda>tc. \<lparr>r_tool_name = tc_tool_name tc,
                                             r_arguments = tc_arguments tc,
                                             r_result = tc_result tc\<rparr>) (a_tool_calls a)\<rparr>,
           db',
           [\<lparr>call_user_id = user_id, call_message = ?msg,
             call_history = load_conversation_history (c_id c) db1\<rparr>])"
      and msgs: "\<exists>tail. messages db' = messages db @ ?um # tail"
      by auto
    show ?thesis
      unfolding run using msgs by (simp add: Inr h1)
  qed
  then obtain db' tail where
    run: "chat env run_agent request user_id db
          = ((case run_agent user_id ?msg ?h of
                Inl e \<Rightarrow> Inl (handle_exception e)
              | Inr a \<Rightarrow>
                  Inr \<lparr>resp_conversation_id = c_id c, resp_response = a_content a,
                       resp_tool_calls =
                         map (\<lambda>tc. \<lparr>r_tool_name = tc_tool_name tc,
                                     r_arguments = tc_arguments tc,
                                     r_result = tc_result tc\<rparr>) (a_tool_calls a)\<rparr>),
             db',
             [\<lparr>call_user_id = user_id, call_message = ?msg, call_history = ?h\<rparr>])"
    and tail: "messages db' = messages db @ ?um # tail"
    by blast
  have isin: "?um \<in> set (messages db')" by (simp add: tail)
  show ?thesis
    by (intro exI [of _ ?rows] exI [of _ db'] conjI)
      (fact proj sub notin run isin longer [OF tail])+
qed

text \<open>
  On the example store the echoing agent answers with the last entry of the history it
  is given: it is the stored ``second msg'', not the ``buy milk'' of the current turn.
\<close>

theorem chat_history_before_user_message_witness:
  "\<exists>db'. chat example_env echo_agent
       \<lparr>req_message = ascii ''buy milk'', req_conversation_id = Some 1\<rparr> alice example_db
       = (Inr \<lparr>resp_conversation_id = 1, resp_response = ascii ''second msg'',
               resp_tool_calls = []\<rparr>,
          db',
          [\<lparr>call_user_id = alice, call_message = strip (ascii ''buy milk''),
            call_history = [\<lparr>h_role = USER, h_content = ascii ''hello there''\<rparr>,
                            \<lparr>h_role = ASSISTANT, h_content = ascii ''hi!''\<rparr>,
                            \<lparr>h_role = USER, h_content = ascii ''second msg''\<rparr>]\<rparr>])
     \<and> new_message (user_stamp example_env) 1 USER (strip (ascii ''buy milk'')) None
          \<in> set (messages db')"
proof -
  let ?request = "\<lparr>req_message = ascii ''buy milk'', req_conversation_id = Some 1\<rparr>"
  let ?c = "\<lparr>c_id = 1, c_user_id = alice, c_created_at = 10, c_updated_at = 40\<rparr>"
  let ?hist = "[\<lparr>h_role = USER, h_content = ascii ''hello there''\<rparr>,
                \<lparr>h_role = ASSISTANT, h_content = ascii ''hi!''\<rparr>,
                \<lparr>h_role = USER, h_content = ascii ''second msg''\<rparr>]"
  have ne: "strip (req_message ?request) \<noteq> []"
    by (simp add: strip_ascii_nonempty)
  have goc: "get_or_create_conversation (conv_stamp example_env) alice
      (req_conversation_id ?request) example_db = (Inr ?c, example_db)"
    using example_resolves_alice by simp
  have hist: "load_conversation_history (c_id ?c) example_db = ?hist"
    by (simp add: load_conversation_history_def example_messages)
  have echo: "echo_agent alice (strip (req_message ?request)) ?hist
      = Inr \<lparr>a_content = ascii ''second msg'', a_tool_calls = []\<rparr>"
    by (simp add: echo_agent_def)
  from chat_history_before_user_message [where run_agent = echo_agent,
      OF ne example_ids(1,2) goc example_ids(3)]
  show ?thesis
    unfolding hist echo by auto
qed

end
